theory Spec2Isabelle
  imports Complex_Main
begin

section \<open>Data model\<close>

text \<open>
  The program (\<^verbatim>\<open>main.py\<close>) projects, year by year, how an annual deposit
  accumulates in a savings account (Tagesgeld), in an index fund (ETF) or in a
  combination of both.  Its amounts and rates are Python \<^verbatim>\<open>float\<close>s; they are
  modelled here as exact real numbers, so rounding, overflow, infinities and NaN of the
  binary representation are outside the model.  Year counts are Python integers and are
  modelled as \<^typ>\<open>int\<close>.

  The only exception the simulations can raise in this model is the division by zero inside
  \<^verbatim>\<open>real_value\<close>; it is a value of the result type.
\<close>

datatype py_error = ZeroDivisionError

record YearResult =
  year :: int
  deposit :: real
  tg_balance :: real
  etf_balance :: real
  total_nominal :: real
  total_real :: real

section \<open>Helper functions\<close>

text \<open>
  Python's \<^verbatim>\<open>b ** n\<close> for a float base and an integer exponent: a negative power of
  zero raises, every other case is a value.
\<close>

definition py_pow :: "real \<Rightarrow> int \<Rightarrow> py_error + real" where
  "py_pow b n =
     (if 0 \<le> n then Inr (b ^ nat n)
      else if b = 0 then Inl ZeroDivisionError
      else Inr (1 / b ^ nat (- n)))"

text \<open>Python's \<^verbatim>\<open>a / b\<close>: a zero divisor raises.\<close>

definition py_truediv :: "real \<Rightarrow> real \<Rightarrow> py_error + real" where
  "py_truediv a b = (if b = 0 then Inl ZeroDivisionError else Inr (a / b))"

text \<open>
  \<^verbatim>\<open>def real_value(nominal, inflation_rate, year):
    return nominal / ((1 + inflation_rate) ** year)\<close>
\<close>

definition real_value :: "real \<Rightarrow> real \<Rightarrow> int \<Rightarrow> py_error + real" where
  "real_value nominal inflation_rate yr =
     (case py_pow (1 + inflation_rate) yr of
        Inl e \<Rightarrow> Inl e
      | Inr p \<Rightarrow> py_truediv nominal p)"

section \<open>The simulations\<close>

text \<open>
  All three simulations are a loop \<^verbatim>\<open>for year in range(1, total_years + 1)\<close> that
  updates the running balances and appends one \<open>YearResult\<close> to \<^verbatim>\<open>results\<close>.
  \<open>for_years body ys s results\<close> runs such a loop over the years \<open>ys\<close> from the
  balances \<open>s\<close>; an exception raised by the body ends the run.
\<close>

fun for_years ::
  "(int \<Rightarrow> 's \<Rightarrow> py_error + 's \<times> YearResult) \<Rightarrow> int list \<Rightarrow> 's \<Rightarrow> YearResult list
     \<Rightarrow> py_error + YearResult list" where
  "for_years body [] s results = Inr results"
| "for_years body (yr # ys) s results =
     (case body yr s of
        Inl e \<Rightarrow> Inl e
      | Inr (s', r) \<Rightarrow> for_years body ys s' (results @ [r]))"

text \<open>
  The deposit of a year (lines 115, 145 and 189): money comes in during the first
  \<^verbatim>\<open>deposit_years\<close> years only.
\<close>

definition year_deposit :: "real \<Rightarrow> int \<Rightarrow> int \<Rightarrow> real" where
  "year_deposit annual_deposit deposit_years yr =
     (if yr \<le> deposit_years then annual_deposit else 0)"

subsection \<open>Savings account only\<close>

text \<open>The loop body of \<^verbatim>\<open>simulate_tagesgeld\<close> (lines 115 to 128); \<open>tg\<close> is \<^verbatim>\<open>tg_balance\<close>.\<close>

definition tagesgeld_year ::
  "int \<Rightarrow> real \<Rightarrow> real \<Rightarrow> real \<Rightarrow> int \<Rightarrow> real \<Rightarrow> py_error + real \<times> YearResult" where
  "tagesgeld_year deposit_years annual_deposit tg_rate inflation_rate yr tg =
     (let dep = year_deposit annual_deposit deposit_years yr;
          tg' = (tg + dep) * (1 + tg_rate);
          nominal = tg'
      in case real_value nominal inflation_rate yr of
           Inl e \<Rightarrow> Inl e
         | Inr rv \<Rightarrow>
             Inr (tg', \<lparr>year = yr, deposit = dep, tg_balance = tg', etf_balance = 0,
                        total_nominal = nominal, total_real = rv\<rparr>))"

definition simulate_tagesgeld ::
  "int \<Rightarrow> int \<Rightarrow> real \<Rightarrow> real \<Rightarrow> real \<Rightarrow> py_error + YearResult list" where
  "simulate_tagesgeld deposit_years growth_years annual_deposit tg_rate inflation_rate =
     (let total_years = deposit_years + growth_years
      in for_years (tagesgeld_year deposit_years annual_deposit tg_rate inflation_rate)
           [1..total_years] 0 [])"

subsection \<open>Index fund only\<close>

text \<open>The loop body of \<^verbatim>\<open>simulate_etf\<close> (lines 145 to 158); \<open>etf\<close> is \<^verbatim>\<open>etf_balance\<close>.\<close>

definition etf_year ::
  "int \<Rightarrow> real \<Rightarrow> real \<Rightarrow> real \<Rightarrow> int \<Rightarrow> real \<Rightarrow> py_error + real \<times> YearResult" where
  "etf_year deposit_years annual_deposit etf_rate inflation_rate yr etf =
     (let dep = year_deposit annual_deposit deposit_years yr;
          etf' = (etf + dep) * (1 + etf_rate);
          nominal = etf'
      in case real_value nominal inflation_rate yr of
           Inl e \<Rightarrow> Inl e
         | Inr rv \<Rightarrow>
             Inr (etf', \<lparr>year = yr, deposit = dep, tg_balance = 0, etf_balance = etf',
                         total_nominal = nominal, total_real = rv\<rparr>))"

definition simulate_etf ::
  "int \<Rightarrow> int \<Rightarrow> real \<Rightarrow> real \<Rightarrow> real \<Rightarrow> py_error + YearResult list" where
  "simulate_etf deposit_years growth_years annual_deposit etf_rate inflation_rate =
     (let total_years = deposit_years + growth_years
      in for_years (etf_year deposit_years annual_deposit etf_rate inflation_rate)
           [1..total_years] 0 [])"

subsection \<open>Combination\<close>

text \<open>
  The loop body of \<^verbatim>\<open>simulate_combo\<close> in its three phases, each on the pair
  (\<^verbatim>\<open>tg_balance\<close>, \<^verbatim>\<open>etf_balance\<close>).

  Lines 190 to 200: the savings account is filled up to the target first, the rest of the
  deposit goes into the fund.
\<close>

definition combo_allocate :: "real \<Rightarrow> real \<Rightarrow> real \<times> real \<Rightarrow> real \<times> real" where
  "combo_allocate target dep = (\<lambda>(tg, etf).
     (let remaining = dep;
          (tg', remaining') =
             (if tg < target \<and> remaining > 0 then
                (let needed = target - tg;
                     alloc = min remaining needed
                 in (tg + alloc, remaining - alloc))
              else (tg, remaining))
      in (tg', etf + remaining')))"

text \<open>Lines 203 and 204: interest and return at the end of the year.\<close>

definition combo_interest :: "real \<Rightarrow> real \<Rightarrow> real \<times> real \<Rightarrow> real \<times> real" where
  "combo_interest tg_rate etf_rate = (\<lambda>(tg, etf). (tg * (1 + tg_rate), etf * (1 + etf_rate)))"

text \<open>Lines 207 to 210: what the savings account holds above the target moves into the fund.\<close>

definition combo_sweep :: "real \<Rightarrow> real \<times> real \<Rightarrow> real \<times> real" where
  "combo_sweep target = (\<lambda>(tg, etf).
     (if tg > target then
        (let excess = tg - target in (target, etf + excess))
      else (tg, etf)))"

text \<open>Line 186: the target of a year.\<close>

definition combo_target :: "real \<Rightarrow> real \<Rightarrow> int \<Rightarrow> int \<Rightarrow> real" where
  "combo_target tg_target_first tg_target_after years_first_target yr =
     (if yr \<le> years_first_target then tg_target_first else tg_target_after)"

text \<open>The whole loop body (lines 186 to 224).\<close>

definition combo_year ::
  "int \<Rightarrow> real \<Rightarrow> real \<Rightarrow> real \<Rightarrow> real \<Rightarrow> real \<Rightarrow> real \<Rightarrow> int \<Rightarrow> int \<Rightarrow> real \<times> real
     \<Rightarrow> py_error + (real \<times> real) \<times> YearResult" where
  "combo_year deposit_years annual_deposit tg_rate etf_rate inflation_rate
       tg_target_first tg_target_after years_first_target yr s =
     (let target = combo_target tg_target_first tg_target_after years_first_target yr;
          dep = year_deposit annual_deposit deposit_years yr;
          (tg', etf') = combo_sweep target (combo_interest tg_rate etf_rate
                           (combo_allocate target dep s));
          nominal = tg' + etf'
      in case real_value nominal inflation_rate yr of
           Inl e \<Rightarrow> Inl e
         | Inr rv \<Rightarrow>
             Inr ((tg', etf'), \<lparr>year = yr, deposit = dep, tg_balance = tg', etf_balance = etf',
                                total_nominal = nominal, total_real = rv\<rparr>))"

definition simulate_combo ::
  "int \<Rightarrow> int \<Rightarrow> real \<Rightarrow> real \<Rightarrow> real \<Rightarrow> real \<Rightarrow> real \<Rightarrow> real \<Rightarrow> int
     \<Rightarrow> py_error + YearResult list" where
  "simulate_combo deposit_years growth_years annual_deposit tg_rate etf_rate inflation_rate
       tg_target_first tg_target_after years_first_target =
     (let total_years = deposit_years + growth_years
      in for_years (combo_year deposit_years annual_deposit tg_rate etf_rate inflation_rate
                      tg_target_first tg_target_after years_first_target)
           [1..total_years] (0, 0) [])"

section \<open>Notions used in the statements\<close>

text \<open>The balances a snapshot records, and the balances the loop holds before year \<open>k + 1\<close>.\<close>

definition balances :: "YearResult \<Rightarrow> real \<times> real" where
  "balances r = (tg_balance r, etf_balance r)"

definition balances_before :: "YearResult list \<Rightarrow> nat \<Rightarrow> real \<times> real" where
  "balances_before rs k = (if k = 0 then (0, 0) else balances (rs ! (k - 1)))"

text \<open>
  The recurrence of the two pure simulations as the specification words it: the balance
  starts at 0; in year \<open>y\<close> the deposit (\<open>annual_deposit\<close> while
  \<open>y \<le> deposit_years\<close>, otherwise 0) is added first, then the balance is multiplied
  by \<open>1 + rate\<close>.  \<open>spec_balance annual_deposit deposit_years rate y\<close> is the balance
  at the end of year \<open>y\<close>.
\<close>

fun spec_balance :: "real \<Rightarrow> int \<Rightarrow> real \<Rightarrow> nat \<Rightarrow> real" where
  "spec_balance annual_deposit deposit_years rate 0 = 0"
| "spec_balance annual_deposit deposit_years rate (Suc n) =
     (spec_balance annual_deposit deposit_years rate n
        + (if int (Suc n) \<le> deposit_years then annual_deposit else 0)) * (1 + rate)"

section \<open>Properties of the loop and of the helper functions\<close>

text \<open>
  A run that returns is a trace of its loop body: when the balances after a year can be read
  off the snapshot of that year (\<open>st\<close>), every snapshot is what the body returns for its
  year from the balances of the snapshot before it.
\<close>

lemma for_years_trace:
  assumes st: "\<And>yr s s' r. body yr s = Inr (s', r) \<Longrightarrow> s' = st r"
    and run: "for_years body ys s0 acc = Inr rs"
  shows "\<exists>rs'. rs = acc @ rs' \<and> length rs' = length ys \<and>
           (\<forall>k<length ys. body (ys ! k) (if k = 0 then s0 else st (rs' ! (k - 1)))
                             = Inr (st (rs' ! k), rs' ! k))"
  using run
proof (induction ys arbitrary: s0 acc)
  case Nil
  then show ?case by simp
next
  case (Cons yr ys)
  from Cons.prems obtain s' r where b: "body yr s0 = Inr (s', r)"
    and rest: "for_years body ys s' (acc @ [r]) = Inr rs"
    by (auto split: sum.splits)
  from st [OF b] have s': "s' = st r" .
  from Cons.IH [OF rest] obtain rs'' where rs: "rs = (acc @ [r]) @ rs''"
    and len: "length rs'' = length ys"
    and tr: "\<forall>k<length ys. body (ys ! k) (if k = 0 then s' else st (rs'' ! (k - 1)))
                             = Inr (st (rs'' ! k), rs'' ! k)"
    by blast
  have "\<forall>k<length (yr # ys). body ((yr # ys) ! k) (if k = 0 then s0 else st ((r # rs'') ! (k - 1)))
                             = Inr (st ((r # rs'') ! k), (r # rs'') ! k)"
  proof (intro allI impI)
    fix k assume k: "k < length (yr # ys)"
    show "body ((yr # ys) ! k) (if k = 0 then s0 else st ((r # rs'') ! (k - 1)))
            = Inr (st ((r # rs'') ! k), (r # rs'') ! k)"
    proof (cases k)
      case 0
      with b s' show ?thesis by simp
    next
      case (Suc j)
      with k have j: "j < length ys" by simp
      from tr j have "body (ys ! j) (if j = 0 then s' else st (rs'' ! (j - 1)))
                             = Inr (st (rs'' ! j), rs'' ! j)" by blast
      with Suc s' show ?thesis by (cases j) simp_all
    qed
  qed
  with rs len show ?case by (intro exI [of _ "r # rs''"]) simp
qed


text \<open>
  \<^verbatim>\<open>real_value\<close> raises exactly when \<open>1 + inflation_rate = 0\<close> and the year is not 0.
\<close>

lemma real_value_Inr:
  "real_value nominal inflation_rate yr = Inr rv \<Longrightarrow> 0 \<le> yr \<Longrightarrow>
     (1 + inflation_rate) ^ nat yr \<noteq> 0 \<and> rv = nominal / (1 + inflation_rate) ^ nat yr"
  by (auto simp: real_value_def py_pow_def py_truediv_def split: if_splits)


lemma real_value_raises:
  "real_value nominal inflation_rate yr = Inl ZeroDivisionError
     \<longleftrightarrow> inflation_rate = - 1 \<and> yr \<noteq> 0"
  by (auto simp: real_value_def py_pow_def py_truediv_def add_eq_0_iff)

text \<open>
  The same for the years \<open>1, ..., n\<close> of a simulation: year \<open>k + 1\<close> is at index \<open>k\<close>.
\<close>

lemma for_years_upto_trace:
  assumes st: "\<And>yr s s' r. body yr s = Inr (s', r) \<Longrightarrow> s' = st r"
    and run: "for_years body [1..n] s0 [] = Inr rs"
  shows "length rs = nat n"
    and "k < length rs \<Longrightarrow>
           body (int k + 1) (if k = 0 then s0 else st (rs ! (k - 1))) = Inr (st (rs ! k), rs ! k)"
proof -
  from for_years_trace [of body st "[1..n]" s0 "[]" rs, OF st run]
  have len: "length rs = length [1..n]"
    and tr: "\<forall>k<length [1..n]. body ([1..n] ! k) (if k = 0 then s0 else st (rs ! (k - 1)))
                             = Inr (st (rs ! k), rs ! k)"
    by auto
  from len show "length rs = nat n" by simp
  assume k: "k < length rs"
  with len have "[1..n] ! k = 1 + int k" by (intro nth_upto) simp
  with tr k len show "body (int k + 1) (if k = 0 then s0 else st (rs ! (k - 1)))
             = Inr (st (rs ! k), rs ! k)"
    by (simp add: add.commute)
qed

text \<open>
  What one year of each simulation returns.
\<close>

lemma tagesgeld_year_Inr:
  assumes "tagesgeld_year deposit_years annual_deposit tg_rate inflation_rate yr tg = Inr (s', r)"
  shows "s' = tg_balance r"
    and "year r = yr"
    and "deposit r = year_deposit annual_deposit deposit_years yr"
    and "tg_balance r = (tg + deposit r) * (1 + tg_rate)"
    and "etf_balance r = 0"
    and "total_nominal r = tg_balance r"
    and "real_value (total_nominal r) inflation_rate yr = Inr (total_real r)"
  using assms by (auto simp: tagesgeld_year_def Let_def split: sum.splits)

lemma etf_year_Inr:
  assumes "etf_year deposit_years annual_deposit etf_rate inflation_rate yr etf = Inr (s', r)"
  shows "s' = etf_balance r"
    and "year r = yr"
    and "deposit r = year_deposit annual_deposit deposit_years yr"
    and "etf_balance r = (etf + deposit r) * (1 + etf_rate)"
    and "tg_balance r = 0"
    and "total_nominal r = etf_balance r"
    and "real_value (total_nominal r) inflation_rate yr = Inr (total_real r)"
  using assms by (auto simp: etf_year_def Let_def split: sum.splits)

lemma combo_year_Inr:
  assumes "combo_year deposit_years annual_deposit tg_rate etf_rate inflation_rate
             tg_target_first tg_target_after years_first_target yr s = Inr (s', r)"
  shows "s' = (tg_balance r, etf_balance r)"
    and "year r = yr"
    and "deposit r = year_deposit annual_deposit deposit_years yr"
    and "(tg_balance r, etf_balance r) =
           combo_sweep (combo_target tg_target_first tg_target_after years_first_target yr)
             (combo_interest tg_rate etf_rate
               (combo_allocate (combo_target tg_target_first tg_target_after years_first_target yr)
                  (year_deposit annual_deposit deposit_years yr) s))"
    and "total_nominal r = tg_balance r + etf_balance r"
    and "real_value (total_nominal r) inflation_rate yr = Inr (total_real r)"
  using assms by (auto simp: combo_year_def Let_def split: sum.splits prod.splits)

text \<open>
  The traces of the three simulations.
\<close>

lemma simulate_tagesgeld_trace:
  assumes "simulate_tagesgeld deposit_years growth_years annual_deposit tg_rate inflation_rate
             = Inr rs"
  shows "length rs = nat (deposit_years + growth_years)"
    and "k < length rs \<Longrightarrow>
           tagesgeld_year deposit_years annual_deposit tg_rate inflation_rate (int k + 1)
               (if k = 0 then 0 else tg_balance (rs ! (k - 1)))
             = Inr (tg_balance (rs ! k), rs ! k)"
proof -
  from assms have run:
    "for_years (tagesgeld_year deposit_years annual_deposit tg_rate inflation_rate)
       [1..deposit_years + growth_years] 0 [] = Inr rs"
    by (simp add: simulate_tagesgeld_def)
  show "length rs = nat (deposit_years + growth_years)"
    by (rule for_years_upto_trace(1) [OF _ run]) (rule tagesgeld_year_Inr(1))
  show "k < length rs \<Longrightarrow>
           tagesgeld_year deposit_years annual_deposit tg_rate inflation_rate (int k + 1)
               (if k = 0 then 0 else tg_balance (rs ! (k - 1)))
             = Inr (tg_balance (rs ! k), rs ! k)"
    by (rule for_years_upto_trace(2) [OF _ run]) (rule tagesgeld_year_Inr(1))
qed

lemma simulate_etf_trace:
  assumes "simulate_etf deposit_years growth_years annual_deposit etf_rate inflation_rate
             = Inr rs"
  shows "length rs = nat (deposit_years + growth_years)"
    and "k < length rs \<Longrightarrow>
           etf_year deposit_years annual_deposit etf_rate inflation_rate (int k + 1)
               (if k = 0 then 0 else etf_balance (rs ! (k - 1)))
             = Inr (etf_balance (rs ! k), rs ! k)"
proof -
  from assms have run:
    "for_years (etf_year deposit_years annual_deposit etf_rate inflation_rate)
       [1..deposit_years + growth_years] 0 [] = Inr rs"
    by (simp add: simulate_etf_def)
  show "length rs = nat (deposit_years + growth_years)"
    by (rule for_years_upto_trace(1) [OF _ run]) (rule etf_year_Inr(1))
  show "k < length rs \<Longrightarrow>
           etf_year deposit_years annual_deposit etf_rate inflation_rate (int k + 1)
               (if k = 0 then 0 else etf_balance (rs ! (k - 1)))
             = Inr (etf_balance (rs ! k), rs ! k)"
    by (rule for_years_upto_trace(2) [OF _ run]) (rule etf_year_Inr(1))
qed

lemma simulate_combo_trace:
  assumes "simulate_combo deposit_years growth_years annual_deposit tg_rate etf_rate
             inflation_rate tg_target_first tg_target_after years_first_target = Inr rs"
  shows "length rs = nat (deposit_years + growth_years)"
    and "k < length rs \<Longrightarrow>
           combo_year deposit_years annual_deposit tg_rate etf_rate inflation_rate
               tg_target_first tg_target_after years_first_target (int k + 1)
               (balances_before rs k)
             = Inr (balances (rs ! k), rs ! k)"
proof -
  let ?body = "combo_year deposit_years annual_deposit tg_rate etf_rate inflation_rate
                 tg_target_first tg_target_after years_first_target"
  from assms have run: "for_years ?body [1..deposit_years + growth_years] (0, 0) [] = Inr rs"
    by (simp add: simulate_combo_def)
  have st: "\<And>yr s s' r. ?body yr s = Inr (s', r) \<Longrightarrow> s' = balances r"
    unfolding balances_def by (rule combo_year_Inr(1))
  show "length rs = nat (deposit_years + growth_years)"
    by (rule for_years_upto_trace(1) [where st = balances, OF st run])
  assume "k < length rs"
  from for_years_upto_trace(2) [where st = balances, OF st run this]
  show "?body (int k + 1) (balances_before rs k) = Inr (balances (rs ! k), rs ! k)"
    by (simp add: balances_before_def)
qed



lemma years_of_trace:
  assumes len: "length rs = nat n"
    and yrs: "\<And>k. k < length rs \<Longrightarrow> year (rs ! k) = int k + 1"
  shows "map year rs = [1..n]"
proof (rule nth_equalityI)
  show "length (map year rs) = length [1..n]" using len by simp
  fix k assume "k < length (map year rs)"
  then have k: "k < length rs" by simp
  with len have "[1..n] ! k = 1 + int k" by (intro nth_upto) simp
  with k yrs [OF k] show "map year rs ! k = [1..n] ! k" by simp
qed

lemma simulate_tagesgeld_years:
  assumes "simulate_tagesgeld deposit_years growth_years annual_deposit tg_rate inflation_rate
             = Inr rs"
  shows "length rs = nat (deposit_years + growth_years)"
    and "map year rs = [1..deposit_years + growth_years]"
proof -
  show len: "length rs = nat (deposit_years + growth_years)"
    by (rule simulate_tagesgeld_trace(1) [OF assms])
  show "map year rs = [1..deposit_years + growth_years]"
  proof (rule years_of_trace [OF len])
    fix k assume "k < length rs"
    from tagesgeld_year_Inr(2) [OF simulate_tagesgeld_trace(2) [OF assms this]]
    show "year (rs ! k) = int k + 1" .
  qed
qed

lemma simulate_etf_years:
  assumes "simulate_etf deposit_years growth_years annual_deposit etf_rate inflation_rate
             = Inr rs"
  shows "length rs = nat (deposit_years + growth_years)"
    and "map year rs = [1..deposit_years + growth_years]"
proof -
  show len: "length rs = nat (deposit_years + growth_years)"
    by (rule simulate_etf_trace(1) [OF assms])
  show "map year rs = [1..deposit_years + growth_years]"
  proof (rule years_of_trace [OF len])
    fix k assume "k < length rs"
    from etf_year_Inr(2) [OF simulate_etf_trace(2) [OF assms this]]
    show "year (rs ! k) = int k + 1" .
  qed
qed


text \<open>The definitions a concrete run unfolds.\<close>

lemmas sim_defs = simulate_tagesgeld_def simulate_etf_def simulate_combo_def
  tagesgeld_year_def etf_year_def combo_year_def year_deposit_def combo_target_def
  combo_allocate_def combo_interest_def combo_sweep_def
  real_value_def py_pow_def py_truediv_def Let_def

text \<open>
  Every snapshot of a run is the result of its own year.
\<close>

lemma simulate_tagesgeld_snapshot:
  assumes run: "simulate_tagesgeld deposit_years growth_years annual_deposit tg_rate
                  inflation_rate = Inr rs"
    and r: "r \<in> set rs"
  obtains tg where "1 \<le> year r"
    and "tagesgeld_year deposit_years annual_deposit tg_rate inflation_rate (year r) tg
           = Inr (tg_balance r, r)"
proof -
  from r obtain k where k: "k < length rs" and rk: "rs ! k = r"
    by (auto simp: in_set_conv_nth)
  note step = simulate_tagesgeld_trace(2) [OF run k]
  from tagesgeld_year_Inr(2) [OF step] rk have "year r = int k + 1" by simp
  with step rk that show thesis by simp
qed

lemma simulate_etf_snapshot:
  assumes run: "simulate_etf deposit_years growth_years annual_deposit etf_rate
                  inflation_rate = Inr rs"
    and r: "r \<in> set rs"
  obtains etf where "1 \<le> year r"
    and "etf_year deposit_years annual_deposit etf_rate inflation_rate (year r) etf
           = Inr (etf_balance r, r)"
proof -
  from r obtain k where k: "k < length rs" and rk: "rs ! k = r"
    by (auto simp: in_set_conv_nth)
  note step = simulate_etf_trace(2) [OF run k]
  from etf_year_Inr(2) [OF step] rk have "year r = int k + 1" by simp
  with step rk that show thesis by simp
qed

lemma simulate_combo_snapshot:
  assumes run: "simulate_combo deposit_years growth_years annual_deposit tg_rate etf_rate
                  inflation_rate tg_target_first tg_target_after years_first_target = Inr rs"
    and r: "r \<in> set rs"
  obtains s where "1 \<le> year r"
    and "combo_year deposit_years annual_deposit tg_rate etf_rate inflation_rate
           tg_target_first tg_target_after years_first_target (year r) s
           = Inr (balances r, r)"
proof -
  from r obtain k where k: "k < length rs" and rk: "rs ! k = r"
    by (auto simp: in_set_conv_nth)
  note step = simulate_combo_trace(2) [OF run k]
  from combo_year_Inr(2) [OF step] rk have "year r = int k + 1" by simp
  with step rk that show thesis by simp
qed

text \<open>Three concrete runs.\<close>

lemma combo_run_example:
  "simulate_combo 2 1 1000 0 0 0 500 200 1 =
     Inr [\<lparr>year = 1, deposit = 1000, tg_balance = 500, etf_balance = 500,
            total_nominal = 1000, total_real = 1000\<rparr>,
          \<lparr>year = 2, deposit = 1000, tg_balance = 200, etf_balance = 1800,
            total_nominal = 2000, total_real = 2000\<rparr>,
          \<lparr>year = 3, deposit = 0, tg_balance = 200, etf_balance = 1800,
            total_nominal = 2000, total_real = 2000\<rparr>]"
proof -
  have "[1..3] = [1, 2, 3 :: int]" by code_simp
  then show ?thesis by (simp add: sim_defs)
qed

lemma tagesgeld_run_example:
  "simulate_tagesgeld 1 1 1000 (1 / 10) (1 / 10) =
     Inr [\<lparr>year = 1, deposit = 1000, tg_balance = 1100, etf_balance = 0,
            total_nominal = 1100, total_real = 1000\<rparr>,
          \<lparr>year = 2, deposit = 0, tg_balance = 1210, etf_balance = 0,
            total_nominal = 1210, total_real = 1000\<rparr>]"
proof -
  have "[1..2] = [1, 2 :: int]" by code_simp
  then show ?thesis by (simp add: sim_defs power2_eq_square)
qed

lemma etf_run_example:
  "simulate_etf 1 1 1000 (1 / 10) (1 / 10) =
     Inr [\<lparr>year = 1, deposit = 1000, tg_balance = 0, etf_balance = 1100,
            total_nominal = 1100, total_real = 1000\<rparr>,
          \<lparr>year = 2, deposit = 0, tg_balance = 0, etf_balance = 1210,
            total_nominal = 1210, total_real = 1000\<rparr>]"
proof -
  have "[1..2] = [1, 2 :: int]" by code_simp
  then show ?thesis by (simp add: sim_defs power2_eq_square)
qed

lemma combo_sweep_le_target: "fst (combo_sweep target s) \<le> target"
  by (cases s) (simp add: combo_sweep_def)

text \<open>
  The balances of the pure simulations, year by year, and two properties of the recurrence.
\<close>

lemma simulate_tagesgeld_balance:
  assumes run: "simulate_tagesgeld deposit_years growth_years annual_deposit tg_rate
                  inflation_rate = Inr rs"
  shows "k < length rs \<Longrightarrow>
           year (rs ! k) = int k + 1
         \<and> tg_balance (rs ! k) = spec_balance annual_deposit deposit_years tg_rate (Suc k)
         \<and> etf_balance (rs ! k) = 0
         \<and> total_nominal (rs ! k) = tg_balance (rs ! k)"
proof (induction k)
  case 0
  note step = simulate_tagesgeld_trace(2) [OF run 0]
  from tagesgeld_year_Inr(2-6) [OF step] show ?case
    by (simp add: year_deposit_def)
next
  case (Suc k)
  then have "k < length rs" by simp
  with Suc.IH have prev:
    "tg_balance (rs ! k) = spec_balance annual_deposit deposit_years tg_rate (Suc k)"
    by simp
  note step = simulate_tagesgeld_trace(2) [OF run Suc.prems]
  from tagesgeld_year_Inr(2-6) [OF step] prev show ?case
    by (simp add: year_deposit_def add.commute)
qed

lemma simulate_etf_balance:
  assumes run: "simulate_etf deposit_years growth_years annual_deposit etf_rate
                  inflation_rate = Inr rs"
  shows "k < length rs \<Longrightarrow>
           year (rs ! k) = int k + 1
         \<and> etf_balance (rs ! k) = spec_balance annual_deposit deposit_years etf_rate (Suc k)
         \<and> tg_balance (rs ! k) = 0
         \<and> total_nominal (rs ! k) = etf_balance (rs ! k)"
proof (induction k)
  case 0
  note step = simulate_etf_trace(2) [OF run 0]
  from etf_year_Inr(2-6) [OF step] show ?case
    by (simp add: year_deposit_def)
next
  case (Suc k)
  then have "k < length rs" by simp
  with Suc.IH have prev:
    "etf_balance (rs ! k) = spec_balance annual_deposit deposit_years etf_rate (Suc k)"
    by simp
  note step = simulate_etf_trace(2) [OF run Suc.prems]
  from etf_year_Inr(2-6) [OF step] prev show ?case
    by (simp add: year_deposit_def add.commute)
qed

lemma spec_balance_nonneg:
  assumes "0 \<le> annual_deposit" and "0 \<le> rate"
  shows "0 \<le> spec_balance annual_deposit deposit_years rate n"
  using assms by (induction n) simp_all


text \<open>
  The three phases of a year of the combination: none of them makes a balance negative,
  allocation adds the deposit to the sum of the balances, interest does not lower the sum,
  and the sweep keeps it.
\<close>

lemma combo_allocate_facts:
  assumes "0 \<le> dep" and "0 \<le> fst s" and "0 \<le> snd s"
  shows "0 \<le> fst (combo_allocate target dep s)"
    and "0 \<le> snd (combo_allocate target dep s)"
    and "fst (combo_allocate target dep s) + snd (combo_allocate target dep s)
           = fst s + snd s + dep"
  using assms by (cases s; simp add: combo_allocate_def Let_def min_def)+

lemma combo_interest_facts:
  assumes "0 \<le> tg_rate" and "0 \<le> etf_rate" and "0 \<le> fst s" and "0 \<le> snd s"
  shows "0 \<le> fst (combo_interest tg_rate etf_rate s)"
    and "0 \<le> snd (combo_interest tg_rate etf_rate s)"
    and "fst s + snd s
           \<le> fst (combo_interest tg_rate etf_rate s) + snd (combo_interest tg_rate etf_rate s)"
proof -
  obtain tg etf where s: "s = (tg, etf)" by (cases s)
  with assms have tg: "0 \<le> tg" and etf: "0 \<le> etf" by simp_all
  from tg assms(1) have a: "tg * 1 \<le> tg * (1 + tg_rate)" by (intro mult_left_mono) simp_all
  from etf assms(2) have b: "etf * 1 \<le> etf * (1 + etf_rate)" by (intro mult_left_mono) simp_all
  from a tg s show "0 \<le> fst (combo_interest tg_rate etf_rate s)"
    by (simp add: combo_interest_def)
  from b etf s show "0 \<le> snd (combo_interest tg_rate etf_rate s)"
    by (simp add: combo_interest_def)
  from a b s show "fst s + snd s
           \<le> fst (combo_interest tg_rate etf_rate s) + snd (combo_interest tg_rate etf_rate s)"
    by (simp add: combo_interest_def)
qed

lemma combo_sweep_facts:
  "fst (combo_sweep target s) + snd (combo_sweep target s) = fst s + snd s"
  "0 \<le> target \<Longrightarrow> 0 \<le> fst s \<Longrightarrow> 0 \<le> fst (combo_sweep target s)"
  "0 \<le> snd s \<Longrightarrow> 0 \<le> snd (combo_sweep target s)"
  by (cases s; simp add: combo_sweep_def Let_def)+

text \<open>
  A year of the combination, read off the run.
\<close>

lemma simulate_combo_step:
  assumes run: "simulate_combo deposit_years growth_years annual_deposit tg_rate etf_rate
                  inflation_rate tg_target_first tg_target_after years_first_target = Inr rs"
    and k: "k < length rs"
  shows "year (rs ! k) = int k + 1"
    and "deposit (rs ! k) = year_deposit annual_deposit deposit_years (int k + 1)"
    and "balances (rs ! k) =
           combo_sweep (combo_target tg_target_first tg_target_after years_first_target (int k + 1))
             (combo_interest tg_rate etf_rate
               (combo_allocate
                  (combo_target tg_target_first tg_target_after years_first_target (int k + 1))
                  (year_deposit annual_deposit deposit_years (int k + 1))
                  (balances_before rs k)))"
    and "total_nominal (rs ! k) = tg_balance (rs ! k) + etf_balance (rs ! k)"
proof -
  note step = simulate_combo_trace(2) [OF run k]
  from combo_year_Inr(2) [OF step] show "year (rs ! k) = int k + 1" .
  from combo_year_Inr(3) [OF step]
  show "deposit (rs ! k) = year_deposit annual_deposit deposit_years (int k + 1)" .
  from combo_year_Inr(4) [OF step]
  show "balances (rs ! k) =
           combo_sweep (combo_target tg_target_first tg_target_after years_first_target (int k + 1))
             (combo_interest tg_rate etf_rate
               (combo_allocate
                  (combo_target tg_target_first tg_target_after years_first_target (int k + 1))
                  (year_deposit annual_deposit deposit_years (int k + 1))
                  (balances_before rs k)))"
    by (simp add: balances_def)
  from combo_year_Inr(5) [OF step]
  show "total_nominal (rs ! k) = tg_balance (rs ! k) + etf_balance (rs ! k)" .
qed

lemma year_deposit_nonneg: "0 \<le> annual_deposit \<Longrightarrow> 0 \<le> year_deposit annual_deposit deposit_years yr"
  by (simp add: year_deposit_def)

lemma combo_target_nonneg:
  "0 \<le> tg_target_first \<Longrightarrow> 0 \<le> tg_target_after \<Longrightarrow>
     0 \<le> combo_target tg_target_first tg_target_after years_first_target yr"
  by (simp add: combo_target_def)

lemma combo_step_facts:
  assumes "0 \<le> target" and "0 \<le> dep" and "0 \<le> tg_rate" and "0 \<le> etf_rate"
    and "0 \<le> fst s" and "0 \<le> snd s"
  shows "0 \<le> fst (combo_sweep target (combo_interest tg_rate etf_rate (combo_allocate target dep s)))"
    and "0 \<le> snd (combo_sweep target (combo_interest tg_rate etf_rate (combo_allocate target dep s)))"
    and "fst s + snd s
           \<le> fst (combo_sweep target (combo_interest tg_rate etf_rate (combo_allocate target dep s)))
             + snd (combo_sweep target (combo_interest tg_rate etf_rate (combo_allocate target dep s)))"
proof -
  let ?a = "combo_allocate target dep s"
  let ?i = "combo_interest tg_rate etf_rate ?a"
  note a = combo_allocate_facts [OF assms(2,5,6), of target]
  note i = combo_interest_facts [OF assms(3,4) a(1,2)]
  from combo_sweep_facts(2) [OF assms(1) i(1)] show "0 \<le> fst (combo_sweep target ?i)" .
  from combo_sweep_facts(3) [OF i(2)] show "0 \<le> snd (combo_sweep target ?i)" .
  have "fst s + snd s \<le> fst ?a + snd ?a" using a(3) assms(2) by simp
  also have "\<dots> \<le> fst ?i + snd ?i" by (rule i(3))
  also have "\<dots> = fst (combo_sweep target ?i) + snd (combo_sweep target ?i)"
    by (rule combo_sweep_facts(1) [symmetric])
  finally show "fst s + snd s \<le> fst (combo_sweep target ?i) + snd (combo_sweep target ?i)" .
qed

lemma simulate_combo_nonneg:
  assumes run: "simulate_combo deposit_years growth_years annual_deposit tg_rate etf_rate
                  inflation_rate tg_target_first tg_target_after years_first_target = Inr rs"
    and nonneg: "0 \<le> annual_deposit" "0 \<le> tg_rate" "0 \<le> etf_rate"
      "0 \<le> tg_target_first" "0 \<le> tg_target_after"
  shows "k < length rs \<Longrightarrow> 0 \<le> fst (balances (rs ! k)) \<and> 0 \<le> snd (balances (rs ! k))"
proof (induction k)
  case 0
  have "0 \<le> fst (balances_before rs 0)" and "0 \<le> snd (balances_before rs 0)"
    by (simp_all add: balances_before_def)
  from combo_step_facts(1,2) [OF combo_target_nonneg [OF nonneg(4,5)]
      year_deposit_nonneg [OF nonneg(1)] nonneg(2,3) this]
    simulate_combo_step(3) [OF run 0]
  show ?case by simp
next
  case (Suc k)
  then have "0 \<le> fst (balances (rs ! k)) \<and> 0 \<le> snd (balances (rs ! k))" by simp
  then have "0 \<le> fst (balances_before rs (Suc k))" and "0 \<le> snd (balances_before rs (Suc k))"
    by (simp_all add: balances_before_def)
  from combo_step_facts(1,2) [OF combo_target_nonneg [OF nonneg(4,5)]
      year_deposit_nonneg [OF nonneg(1)] nonneg(2,3) this]
    simulate_combo_step(3) [OF run Suc.prems]
  show ?case by simp
qed


lemma combo_run_example_interest:
  "simulate_combo 1 1 1000 (1 / 10) (1 / 10) 0 500 500 1 =
     Inr [\<lparr>year = 1, deposit = 1000, tg_balance = 500, etf_balance = 600,
            total_nominal = 1100, total_real = 1100\<rparr>,
          \<lparr>year = 2, deposit = 0, tg_balance = 500, etf_balance = 710,
            total_nominal = 1210, total_real = 1210\<rparr>]"
proof -
  have "[1..2] = [1, 2 :: int]" by code_simp
  then show ?thesis by (simp add: sim_defs)
qed

section \<open>The claims\<close>

subsection \<open>C1: how the deposit of a year is allocated\<close>

text \<open>
  Claim C1.  In every year \<open>y = k + 1\<close> of a run of \<^verbatim>\<open>simulate_combo\<close>, with
  \<open>target\<close> the target of the year (\<open>tg_target_first\<close> if \<open>y \<le> years_first_target\<close>,
  otherwise \<open>tg_target_after\<close>), \<open>dep\<close> the deposit of the year and \<open>(tg0, etf0)\<close> the
  balances the year starts from (those of the previous snapshot, or zero in the first
  year): if \<open>tg0 < target\<close> and \<open>dep > 0\<close>, then \<open>min dep (target - tg0)\<close> is added to
  the savings account and the remainder of the deposit to the fund; if
  \<open>tg0 \<ge> target\<close>, the whole deposit is added to the fund.  The snapshot of the year
  records what interest and the sweep make of the balances so allocated.
\<close>

theorem combo_allocation_rule:
  assumes run: "simulate_combo deposit_years growth_years annual_deposit tg_rate etf_rate
                  inflation_rate tg_target_first tg_target_after years_first_target = Inr rs"
    and k: "k < length rs"
    and target: "target = (if int k + 1 \<le> years_first_target then tg_target_first
                           else tg_target_after)"
    and dep: "dep = (if int k + 1 \<le> deposit_years then annual_deposit else 0)"
    and before: "balances_before rs k = (tg0, etf0)"
  shows "year (rs ! k) = int k + 1 \<and> deposit (rs ! k) = dep
       \<and> (tg0 < target \<and> 0 < dep \<longrightarrow>
            combo_allocate target dep (tg0, etf0)
              = (tg0 + min dep (target - tg0), etf0 + (dep - min dep (target - tg0))))
       \<and> (target \<le> tg0 \<longrightarrow> combo_allocate target dep (tg0, etf0) = (tg0, etf0 + dep))
       \<and> balances (rs ! k)
            = combo_sweep target (combo_interest tg_rate etf_rate
                (combo_allocate target dep (tg0, etf0)))"
proof -
  from target have t: "combo_target tg_target_first tg_target_after years_first_target (int k + 1)
                         = target"
    by (simp add: combo_target_def)
  from dep have d: "year_deposit annual_deposit deposit_years (int k + 1) = dep"
    by (simp add: year_deposit_def)
  from simulate_combo_step(1) [OF run k] have c1: "year (rs ! k) = int k + 1" .
  from simulate_combo_step(2) [OF run k] d have c2: "deposit (rs ! k) = dep" by simp
  have c3: "tg0 < target \<and> 0 < dep \<longrightarrow>
            combo_allocate target dep (tg0, etf0)
              = (tg0 + min dep (target - tg0), etf0 + (dep - min dep (target - tg0)))"
    by (simp add: combo_allocate_def Let_def)
  have c4: "target \<le> tg0 \<longrightarrow> combo_allocate target dep (tg0, etf0) = (tg0, etf0 + dep)"
    by (simp add: combo_allocate_def Let_def)
  from simulate_combo_step(3) [OF run k] t d before
  have c5: "balances (rs ! k)
            = combo_sweep target (combo_interest tg_rate etf_rate
                (combo_allocate target dep (tg0, etf0)))"
    by simp
  from c1 c2 c3 c4 c5 show ?thesis by (intro conjI)
qed

text \<open>
  The first year of a run (the savings account is filled from 0 to its target 500, the
  other 500 go to the fund) and its second year (the savings account is above the new
  target 200, the whole deposit goes to the fund).
\<close>

theorem combo_allocation_rule_witness:
  "simulate_combo 2 1 1000 0 0 0 500 200 1 =
     Inr [\<lparr>year = 1, deposit = 1000, tg_balance = 500, etf_balance = 500,
            total_nominal = 1000, total_real = 1000\<rparr>,
          \<lparr>year = 2, deposit = 1000, tg_balance = 200, etf_balance = 1800,
            total_nominal = 2000, total_real = 2000\<rparr>,
          \<lparr>year = 3, deposit = 0, tg_balance = 200, etf_balance = 1800,
            total_nominal = 2000, total_real = 2000\<rparr>]
   \<and> combo_allocate 500 1000 (0, 0) = (0 + min 1000 (500 - 0), 0 + (1000 - min 1000 (500 - 0)))
   \<and> (500, 500) = combo_sweep 500 (combo_interest 0 0 (combo_allocate 500 1000 (0, 0)))
   \<and> combo_allocate 200 1000 (500, 500) = (500, 500 + 1000)
   \<and> (200, 1800) = combo_sweep 200 (combo_interest 0 0 (combo_allocate 200 1000 (500, 500)))"
proof -
  note run = combo_run_example
  from combo_allocation_rule [OF run, of 0 500 1000 0 0]
  have w1: "combo_allocate 500 1000 (0, 0)
          = (0 + min 1000 (500 - 0), 0 + (1000 - min 1000 (500 - 0)))
        \<and> (500, 500) = combo_sweep 500 (combo_interest 0 0 (combo_allocate 500 1000 (0, 0)))"
    by (simp add: balances_before_def balances_def combo_sweep_def combo_interest_def
          combo_allocate_def)
  from combo_allocation_rule [OF run, of 1 200 1000 500 500]
  have w2: "combo_allocate 200 1000 (500, 500) = (500, 500 + 1000)
        \<and> (200, 1800) = combo_sweep 200 (combo_interest 0 0 (combo_allocate 200 1000 (500, 500)))"
    by (simp add: balances_before_def balances_def combo_sweep_def combo_interest_def
          combo_allocate_def)
  from run conjunct1 [OF w1] conjunct2 [OF w1] conjunct1 [OF w2] conjunct2 [OF w2]
  show ?thesis by (intro conjI)
qed

subsection \<open>C2: the sweep after interest\<close>

text \<open>
  Claim C2.  In every year \<open>y = k + 1\<close> of a run of \<^verbatim>\<open>simulate_combo\<close>, let
  \<open>(tg2, etf2)\<close> be the balances after allocation and interest.  If \<open>tg2\<close> exceeds the
  target of the year, the snapshot of the year holds exactly the target in \<open>tg_balance\<close> and
  \<open>etf2\<close> plus the excess \<open>tg2 - target\<close> in \<open>etf_balance\<close>.  In particular in year
  \<open>years_first_target + 1\<close>, the first year of the second phase, the target is
  \<open>tg_target_after\<close>, and what the savings account holds above it moves to the fund in that
  same year.
\<close>

theorem combo_sweep_rule:
  assumes run: "simulate_combo deposit_years growth_years annual_deposit tg_rate etf_rate
                  inflation_rate tg_target_first tg_target_after years_first_target = Inr rs"
    and k: "k < length rs"
    and target: "target = (if int k + 1 \<le> years_first_target then tg_target_first
                           else tg_target_after)"
    and dep: "dep = (if int k + 1 \<le> deposit_years then annual_deposit else 0)"
    and compounded: "combo_interest tg_rate etf_rate
                       (combo_allocate target dep (balances_before rs k)) = (tg2, etf2)"
    and excess: "target < tg2"
  shows "tg_balance (rs ! k) = target \<and> etf_balance (rs ! k) = etf2 + (tg2 - target)
       \<and> (int k = years_first_target \<longrightarrow>
            tg_balance (rs ! k) = tg_target_after
          \<and> etf_balance (rs ! k) = etf2 + (tg2 - tg_target_after))"
proof -
  from target have t: "combo_target tg_target_first tg_target_after years_first_target (int k + 1)
                         = target"
    by (simp add: combo_target_def)
  from dep have d: "year_deposit annual_deposit deposit_years (int k + 1) = dep"
    by (simp add: year_deposit_def)
  from simulate_combo_step(3) [OF run k] t d compounded
  have "balances (rs ! k) = combo_sweep target (tg2, etf2)" by simp
  with excess have "tg_balance (rs ! k) = target \<and> etf_balance (rs ! k) = etf2 + (tg2 - target)"
    by (simp add: balances_def combo_sweep_def)
  moreover from target have "int k = years_first_target \<longrightarrow> target = tg_target_after" by simp
  ultimately show ?thesis by auto
qed

text \<open>
  The year in which the target drops from 500 to 200: the savings account holds 500 after
  interest, 300 of them move to the fund.
\<close>

theorem combo_sweep_rule_witness:
  "simulate_combo 2 1 1000 0 0 0 500 200 1 =
     Inr [\<lparr>year = 1, deposit = 1000, tg_balance = 500, etf_balance = 500,
            total_nominal = 1000, total_real = 1000\<rparr>,
          \<lparr>year = 2, deposit = 1000, tg_balance = 200, etf_balance = 1800,
            total_nominal = 2000, total_real = 2000\<rparr>,
          \<lparr>year = 3, deposit = 0, tg_balance = 200, etf_balance = 1800,
            total_nominal = 2000, total_real = 2000\<rparr>]
   \<and> combo_interest 0 0 (combo_allocate 200 1000 (500, 500)) = (500, 1500)
   \<and> (200 :: real) < 500
   \<and> tg_balance \<lparr>year = 2, deposit = 1000, tg_balance = 200, etf_balance = 1800,
            total_nominal = 2000, total_real = 2000\<rparr> = 200
   \<and> etf_balance \<lparr>year = 2, deposit = 1000, tg_balance = 200, etf_balance = 1800,
            total_nominal = 2000, total_real = 2000\<rparr> = 1500 + (500 - 200)"
proof -
  note run = combo_run_example
  have c: "combo_interest 0 0 (combo_allocate 200 1000 (500, 500)) = (500, 1500)"
    by (simp add: combo_interest_def combo_allocate_def)
  from combo_sweep_rule [OF run, of 1 200 1000 500 1500] c run
  show ?thesis
    by (simp add: balances_before_def balances_def combo_interest_def combo_allocate_def)
qed

subsection \<open>C3: the nominal total is the sum of the two balances\<close>

text \<open>
  Claim C3.  In every snapshot that any of the three simulations returns, on any inputs,
  \<open>total_nominal\<close> equals the sum of \<open>tg_balance\<close> and \<open>etf_balance\<close>.
\<close>

theorem total_nominal_is_sum:
  assumes run:
    "simulate_tagesgeld deposit_years growth_years annual_deposit tg_rate inflation_rate = Inr rs
     \<or> simulate_etf deposit_years growth_years annual_deposit etf_rate inflation_rate = Inr rs
     \<or> simulate_combo deposit_years growth_years annual_deposit tg_rate etf_rate inflation_rate
          tg_target_first tg_target_after years_first_target = Inr rs"
    and r: "r \<in> set rs"
  shows "total_nominal r = tg_balance r + etf_balance r"
  using run
proof (elim disjE)
  assume "simulate_tagesgeld deposit_years growth_years annual_deposit tg_rate inflation_rate
            = Inr rs"
  from simulate_tagesgeld_snapshot [OF this r] obtain tg where
    "tagesgeld_year deposit_years annual_deposit tg_rate inflation_rate (year r) tg
       = Inr (tg_balance r, r)"
    by blast
  from tagesgeld_year_Inr(5,6) [OF this] show ?thesis by simp
next
  assume "simulate_etf deposit_years growth_years annual_deposit etf_rate inflation_rate
            = Inr rs"
  from simulate_etf_snapshot [OF this r] obtain etf where
    "etf_year deposit_years annual_deposit etf_rate inflation_rate (year r) etf
       = Inr (etf_balance r, r)"
    by blast
  from etf_year_Inr(5,6) [OF this] show ?thesis by simp
next
  assume "simulate_combo deposit_years growth_years annual_deposit tg_rate etf_rate
            inflation_rate tg_target_first tg_target_after years_first_target = Inr rs"
  from simulate_combo_snapshot [OF this r] obtain s where
    "combo_year deposit_years annual_deposit tg_rate etf_rate inflation_rate
       tg_target_first tg_target_after years_first_target (year r) s = Inr (balances r, r)"
    by blast
  from combo_year_Inr(5) [OF this] show ?thesis .
qed

text \<open>The second year of a run of the combination.\<close>

theorem total_nominal_is_sum_witness:
  "simulate_combo 2 1 1000 0 0 0 500 200 1 =
     Inr [\<lparr>year = 1, deposit = 1000, tg_balance = 500, etf_balance = 500,
            total_nominal = 1000, total_real = 1000\<rparr>,
          \<lparr>year = 2, deposit = 1000, tg_balance = 200, etf_balance = 1800,
            total_nominal = 2000, total_real = 2000\<rparr>,
          \<lparr>year = 3, deposit = 0, tg_balance = 200, etf_balance = 1800,
            total_nominal = 2000, total_real = 2000\<rparr>]
   \<and> total_nominal \<lparr>year = 2, deposit = 1000, tg_balance = 200, etf_balance = 1800,
            total_nominal = 2000, total_real = 2000\<rparr>
     = tg_balance \<lparr>year = 2, deposit = 1000, tg_balance = 200, etf_balance = 1800,
            total_nominal = 2000, total_real = 2000\<rparr>
       + etf_balance \<lparr>year = 2, deposit = 1000, tg_balance = 200, etf_balance = 1800,
            total_nominal = 2000, total_real = 2000\<rparr>"
  using combo_run_example
    total_nominal_is_sum [OF disjI2 [OF disjI2 [OF combo_run_example]],
      of "\<lparr>year = 2, deposit = 1000, tg_balance = 200, etf_balance = 1800,
            total_nominal = 2000, total_real = 2000\<rparr>"]
  by simp

subsection \<open>C4: the recurrence of the two pure simulations\<close>

text \<open>
  Claim C4.  In both pure simulations the balance follows the recurrence
  \<open>spec_balance\<close>: it starts at 0, and in every year \<open>y\<close> from 1 to
  \<open>deposit_years + growth_years\<close> the deposit of the year is added first and the sum is
  then multiplied by \<open>1 + rate\<close>.  \<^verbatim>\<open>simulate_tagesgeld\<close> reports this balance in
  \<open>tg_balance\<close>, with \<open>etf_balance = 0\<close> in every snapshot; \<^verbatim>\<open>simulate_etf\<close> reports
  it in \<open>etf_balance\<close>, with \<open>tg_balance = 0\<close> in every snapshot.
\<close>

theorem pure_simulations_recurrence:
  "(\<forall>rs. simulate_tagesgeld deposit_years growth_years annual_deposit rate inflation_rate = Inr rs
      \<longrightarrow> map year rs = [1..deposit_years + growth_years]
        \<and> (\<forall>r \<in> set rs.
              tg_balance r = spec_balance annual_deposit deposit_years rate (nat (year r))
            \<and> etf_balance r = 0))
 \<and> (\<forall>rs. simulate_etf deposit_years growth_years annual_deposit rate inflation_rate = Inr rs
      \<longrightarrow> map year rs = [1..deposit_years + growth_years]
        \<and> (\<forall>r \<in> set rs.
              etf_balance r = spec_balance annual_deposit deposit_years rate (nat (year r))
            \<and> tg_balance r = 0))"
proof (intro conjI allI impI ballI)
  fix rs
  assume run: "simulate_tagesgeld deposit_years growth_years annual_deposit rate inflation_rate
                 = Inr rs"
  show "map year rs = [1..deposit_years + growth_years]"
    by (rule simulate_tagesgeld_years(2) [OF run])
  fix r assume "r \<in> set rs"
  then obtain k where k: "k < length rs" and rk: "rs ! k = r"
    by (auto simp: in_set_conv_nth)
  from simulate_tagesgeld_balance [OF run k] rk
  show "tg_balance r = spec_balance annual_deposit deposit_years rate (nat (year r))"
    and "etf_balance r = 0"
    by (simp_all add: nat_add_distrib)
next
  fix rs
  assume run: "simulate_etf deposit_years growth_years annual_deposit rate inflation_rate
                 = Inr rs"
  show "map year rs = [1..deposit_years + growth_years]"
    by (rule simulate_etf_years(2) [OF run])
  fix r assume "r \<in> set rs"
  then obtain k where k: "k < length rs" and rk: "rs ! k = r"
    by (auto simp: in_set_conv_nth)
  from simulate_etf_balance [OF run k] rk
  show "etf_balance r = spec_balance annual_deposit deposit_years rate (nat (year r))"
    and "tg_balance r = 0"
    by (simp_all add: nat_add_distrib)
qed

text \<open>One deposit year and one growth year at 10 percent, in both simulations.\<close>

theorem pure_simulations_recurrence_witness:
  "simulate_tagesgeld 1 1 1000 (1 / 10) (1 / 10) =
     Inr [\<lparr>year = 1, deposit = 1000, tg_balance = 1100, etf_balance = 0,
            total_nominal = 1100, total_real = 1000\<rparr>,
          \<lparr>year = 2, deposit = 0, tg_balance = 1210, etf_balance = 0,
            total_nominal = 1210, total_real = 1000\<rparr>]
   \<and> simulate_etf 1 1 1000 (1 / 10) (1 / 10) =
     Inr [\<lparr>year = 1, deposit = 1000, tg_balance = 0, etf_balance = 1100,
            total_nominal = 1100, total_real = 1000\<rparr>,
          \<lparr>year = 2, deposit = 0, tg_balance = 0, etf_balance = 1210,
            total_nominal = 1210, total_real = 1000\<rparr>]
   \<and> spec_balance 1000 1 (1 / 10) 1 = 1100
   \<and> spec_balance 1000 1 (1 / 10) 2 = 1210"
  using pure_simulations_recurrence [of 1 1 1000 "1 / 10" "1 / 10"]
    tagesgeld_run_example etf_run_example
  by simp

subsection \<open>C5: length of the result and its year fields\<close>




subsection \<open>C6: the real total is the discounted nominal total\<close>

text \<open>
  Claim C6.  In every snapshot of every simulation, \<open>total_real\<close> is what
  \<^verbatim>\<open>real_value\<close> returns for the snapshot's \<open>total_nominal\<close> and year, that is
  \<open>total_nominal / (1 + inflation_rate) ** year\<close>; with \<open>inflation_rate = 0\<close> it equals
  \<open>total_nominal\<close>.
\<close>

theorem total_real_is_discounted:
  assumes run:
    "simulate_tagesgeld deposit_years growth_years annual_deposit tg_rate inflation_rate = Inr rs
     \<or> simulate_etf deposit_years growth_years annual_deposit etf_rate inflation_rate = Inr rs
     \<or> simulate_combo deposit_years growth_years annual_deposit tg_rate etf_rate inflation_rate
          tg_target_first tg_target_after years_first_target = Inr rs"
    and r: "r \<in> set rs"
  shows "real_value (total_nominal r) inflation_rate (year r) = Inr (total_real r)
       \<and> total_real r = total_nominal r / (1 + inflation_rate) ^ nat (year r)
       \<and> (inflation_rate = 0 \<longrightarrow> total_real r = total_nominal r)"
proof -
  have "1 \<le> year r \<and> real_value (total_nominal r) inflation_rate (year r) = Inr (total_real r)"
    using run
  proof (elim disjE)
    assume "simulate_tagesgeld deposit_years growth_years annual_deposit tg_rate inflation_rate
              = Inr rs"
    from simulate_tagesgeld_snapshot [OF this r] obtain tg where "1 \<le> year r"
      and "tagesgeld_year deposit_years annual_deposit tg_rate inflation_rate (year r) tg
             = Inr (tg_balance r, r)"
      by blast
    with tagesgeld_year_Inr(7) [OF this(2)] show ?thesis by simp
  next
    assume "simulate_etf deposit_years growth_years annual_deposit etf_rate inflation_rate
              = Inr rs"
    from simulate_etf_snapshot [OF this r] obtain etf where "1 \<le> year r"
      and "etf_year deposit_years annual_deposit etf_rate inflation_rate (year r) etf
             = Inr (etf_balance r, r)"
      by blast
    with etf_year_Inr(7) [OF this(2)] show ?thesis by simp
  next
    assume "simulate_combo deposit_years growth_years annual_deposit tg_rate etf_rate
              inflation_rate tg_target_first tg_target_after years_first_target = Inr rs"
    from simulate_combo_snapshot [OF this r] obtain s where "1 \<le> year r"
      and "combo_year deposit_years annual_deposit tg_rate etf_rate inflation_rate
             tg_target_first tg_target_after years_first_target (year r) s = Inr (balances r, r)"
      by blast
    with combo_year_Inr(6) [OF this(2)] show ?thesis by simp
  qed
  then have yr: "0 \<le> year r"
    and rv: "real_value (total_nominal r) inflation_rate (year r) = Inr (total_real r)"
    by simp_all
  from real_value_Inr [OF rv yr]
  have "total_real r = total_nominal r / (1 + inflation_rate) ^ nat (year r)" by simp
  with rv show ?thesis by simp
qed

text \<open>
  The second year of a savings run at 10 percent inflation, and the third year of a run of
  the combination at no inflation.
\<close>

theorem total_real_is_discounted_witness:
  "simulate_tagesgeld 1 1 1000 (1 / 10) (1 / 10) =
     Inr [\<lparr>year = 1, deposit = 1000, tg_balance = 1100, etf_balance = 0,
            total_nominal = 1100, total_real = 1000\<rparr>,
          \<lparr>year = 2, deposit = 0, tg_balance = 1210, etf_balance = 0,
            total_nominal = 1210, total_real = 1000\<rparr>]
   \<and> real_value 1210 (1 / 10) 2 = Inr 1000
   \<and> (1000 :: real) = 1210 / (1 + 1 / 10) ^ 2
   \<and> simulate_combo 2 1 1000 0 0 0 500 200 1 =
     Inr [\<lparr>year = 1, deposit = 1000, tg_balance = 500, etf_balance = 500,
            total_nominal = 1000, total_real = 1000\<rparr>,
          \<lparr>year = 2, deposit = 1000, tg_balance = 200, etf_balance = 1800,
            total_nominal = 2000, total_real = 2000\<rparr>,
          \<lparr>year = 3, deposit = 0, tg_balance = 200, etf_balance = 1800,
            total_nominal = 2000, total_real = 2000\<rparr>]
   \<and> total_real \<lparr>year = 3, deposit = 0, tg_balance = 200, etf_balance = 1800,
            total_nominal = 2000, total_real = 2000\<rparr>
     = total_nominal \<lparr>year = 3, deposit = 0, tg_balance = 200, etf_balance = 1800,
            total_nominal = 2000, total_real = 2000\<rparr>"
proof -
  from total_real_is_discounted [OF disjI1 [OF tagesgeld_run_example],
      of "\<lparr>year = 2, deposit = 0, tg_balance = 1210, etf_balance = 0,
            total_nominal = 1210, total_real = 1000\<rparr>"]
  have "real_value 1210 (1 / 10) 2 = Inr 1000 \<and> (1000 :: real) = 1210 / (1 + 1 / 10) ^ 2"
    by simp
  moreover
  from total_real_is_discounted [OF disjI2 [OF disjI2 [OF combo_run_example]],
      of "\<lparr>year = 3, deposit = 0, tg_balance = 200, etf_balance = 1800,
            total_nominal = 2000, total_real = 2000\<rparr>"]
  have "total_real \<lparr>year = 3, deposit = 0, tg_balance = 200, etf_balance = 1800,
            total_nominal = 2000, total_real = 2000\<rparr>
     = total_nominal \<lparr>year = 3, deposit = 0, tg_balance = 200, etf_balance = 1800,
            total_nominal = 2000, total_real = 2000\<rparr>"
    by simp
  ultimately show ?thesis
    using tagesgeld_run_example combo_run_example by simp
qed

subsection \<open>C7: the nominal total never decreases\<close>



subsection \<open>C8: the balances are never negative\<close>

text \<open>
  Claim C8.  If the annual deposit, the rates of return and, for the combination, both
  targets are non-negative, then \<open>tg_balance\<close> and \<open>etf_balance\<close> are non-negative in
  every snapshot that any of the three simulations returns.  (The inflation rate plays no
  part in the balances and is not restricted.)
\<close>

theorem balances_nonneg:
  assumes nonneg: "0 \<le> annual_deposit" "0 \<le> tg_rate" "0 \<le> etf_rate"
    and run:
    "simulate_tagesgeld deposit_years growth_years annual_deposit tg_rate inflation_rate = Inr rs
     \<or> simulate_etf deposit_years growth_years annual_deposit etf_rate inflation_rate = Inr rs
     \<or> (0 \<le> tg_target_first \<and> 0 \<le> tg_target_after
        \<and> simulate_combo deposit_years growth_years annual_deposit tg_rate etf_rate inflation_rate
            tg_target_first tg_target_after years_first_target = Inr rs)"
    and r: "r \<in> set rs"
  shows "0 \<le> tg_balance r \<and> 0 \<le> etf_balance r"
proof -
  from r obtain k where k: "k < length rs" and rk: "rs ! k = r"
    by (auto simp: in_set_conv_nth)
  from run show ?thesis
  proof (elim disjE conjE)
    assume "simulate_tagesgeld deposit_years growth_years annual_deposit tg_rate inflation_rate
              = Inr rs"
    from simulate_tagesgeld_balance [OF this k] rk
      spec_balance_nonneg [OF nonneg(1,2), of deposit_years "Suc k"]
    show ?thesis by simp
  next
    assume "simulate_etf deposit_years growth_years annual_deposit etf_rate inflation_rate
              = Inr rs"
    from simulate_etf_balance [OF this k] rk
      spec_balance_nonneg [OF nonneg(1,3), of deposit_years "Suc k"]
    show ?thesis by simp
  next
    assume "0 \<le> tg_target_first" and "0 \<le> tg_target_after"
      and "simulate_combo deposit_years growth_years annual_deposit tg_rate etf_rate
             inflation_rate tg_target_first tg_target_after years_first_target = Inr rs"
    from simulate_combo_nonneg [OF this(3) nonneg this(1,2) k] rk
    show ?thesis by (simp add: balances_def)
  qed
qed

text \<open>The second year of a run of the combination and of a savings run, both at 10 percent.\<close>

theorem balances_nonneg_witness:
  "(0 :: real) \<le> 1000 \<and> (0 :: real) \<le> 1 / 10 \<and> (0 :: real) \<le> 500
   \<and> simulate_combo 1 1 1000 (1 / 10) (1 / 10) 0 500 500 1 =
     Inr [\<lparr>year = 1, deposit = 1000, tg_balance = 500, etf_balance = 600,
            total_nominal = 1100, total_real = 1100\<rparr>,
          \<lparr>year = 2, deposit = 0, tg_balance = 500, etf_balance = 710,
            total_nominal = 1210, total_real = 1210\<rparr>]
   \<and> 0 \<le> tg_balance \<lparr>year = 2, deposit = 0, tg_balance = 500, etf_balance = 710,
            total_nominal = 1210, total_real = 1210\<rparr>
   \<and> 0 \<le> etf_balance \<lparr>year = 2, deposit = 0, tg_balance = 500, etf_balance = 710,
            total_nominal = 1210, total_real = 1210\<rparr>
   \<and> simulate_tagesgeld 1 1 1000 (1 / 10) (1 / 10) =
     Inr [\<lparr>year = 1, deposit = 1000, tg_balance = 1100, etf_balance = 0,
            total_nominal = 1100, total_real = 1000\<rparr>,
          \<lparr>year = 2, deposit = 0, tg_balance = 1210, etf_balance = 0,
            total_nominal = 1210, total_real = 1000\<rparr>]
   \<and> 0 \<le> tg_balance \<lparr>year = 2, deposit = 0, tg_balance = 1210, etf_balance = 0,
            total_nominal = 1210, total_real = 1000\<rparr>"
proof -
  have "(0 :: real) \<le> 1000" and "(0 :: real) \<le> 1 / 10" and "(0 :: real) \<le> 500"
    by simp_all
  from balances_nonneg [OF this(1,2,2)
      disjI2 [OF disjI2 [OF conjI [OF this(3) conjI [OF this(3) combo_run_example_interest]]]],
      of "\<lparr>year = 2, deposit = 0, tg_balance = 500, etf_balance = 710,
            total_nominal = 1210, total_real = 1210\<rparr>"]
    balances_nonneg [OF this(1,2,2) disjI1 [OF tagesgeld_run_example],
      of "\<lparr>year = 2, deposit = 0, tg_balance = 1210, etf_balance = 0,
            total_nominal = 1210, total_real = 1000\<rparr>"]
    combo_run_example_interest tagesgeld_run_example
  show ?thesis by simp
qed

subsection \<open>C9: the first concrete scenario\<close>

text \<open>
  Claim C9.  \<^verbatim>\<open>simulate_tagesgeld\<close> called with \<open>deposit_years = 1\<close>,
  \<open>growth_years = 0\<close>, \<open>annual_deposit = 1000\<close> and \<open>tg_rate = 0.10\<close> returns exactly
  one snapshot, with deposit 1000, \<open>tg_balance\<close> 1100 and \<open>total_nominal\<close> 1100.  The
  claim leaves the inflation rate open; the statement holds for every inflation rate
  but \<open>-1\<close>, which the specification excludes from the inputs.
\<close>

theorem tagesgeld_scenario_1:
  assumes "inflation_rate \<noteq> - 1"
  shows "simulate_tagesgeld 1 0 1000 (1 / 10) inflation_rate =
           Inr [\<lparr>year = 1, deposit = 1000, tg_balance = 1100, etf_balance = 0,
                 total_nominal = 1100, total_real = 1100 / (1 + inflation_rate)\<rparr>]"
proof -
  from assms have nz: "1 + inflation_rate \<noteq> 0" by (simp add: add_eq_0_iff)
  have "(0 + 1000) * (1 + 1 / 10) = (1100 :: real)" by simp
  with nz show ?thesis by (simp add: sim_defs del: distrib_left_numeral)
qed

theorem tagesgeld_scenario_1_witness:
  "simulate_tagesgeld 1 0 1000 (1 / 10) 0 =
           Inr [\<lparr>year = 1, deposit = 1000, tg_balance = 1100, etf_balance = 0,
                 total_nominal = 1100, total_real = 1100\<rparr>]"
  using tagesgeld_scenario_1 [of 0] by simp

subsection \<open>C10: the savings balance never exceeds the target of its year\<close>

text \<open>
  Claim C10.  In every snapshot that \<^verbatim>\<open>simulate_combo\<close> returns, on any inputs,
  \<open>tg_balance\<close> is at most the target of the snapshot's year: \<open>tg_target_first\<close> if
  \<open>year \<le> years_first_target\<close>, otherwise \<open>tg_target_after\<close>.
\<close>

theorem combo_tg_balance_le_target:
  assumes run: "simulate_combo deposit_years growth_years annual_deposit tg_rate etf_rate
                  inflation_rate tg_target_first tg_target_after years_first_target = Inr rs"
    and r: "r \<in> set rs"
  shows "tg_balance r
           \<le> (if year r \<le> years_first_target then tg_target_first else tg_target_after)"
proof -
  from simulate_combo_snapshot [OF run r] obtain s where
    "combo_year deposit_years annual_deposit tg_rate etf_rate inflation_rate
       tg_target_first tg_target_after years_first_target (year r) s = Inr (balances r, r)"
    by blast
  from arg_cong [OF combo_year_Inr(4) [OF this], of fst]
  have "tg_balance r =
          fst (combo_sweep (combo_target tg_target_first tg_target_after years_first_target (year r))
             (combo_interest tg_rate etf_rate
               (combo_allocate
                  (combo_target tg_target_first tg_target_after years_first_target (year r))
                  (year_deposit annual_deposit deposit_years (year r)) s)))"
    by simp
  also have "\<dots> \<le> combo_target tg_target_first tg_target_after years_first_target (year r)"
    by (rule combo_sweep_le_target)
  finally show ?thesis by (simp add: combo_target_def)
qed

text \<open>The year in which the target drops from 500 to 200.\<close>

theorem combo_tg_balance_le_target_witness:
  "simulate_combo 2 1 1000 0 0 0 500 200 1 =
     Inr [\<lparr>year = 1, deposit = 1000, tg_balance = 500, etf_balance = 500,
            total_nominal = 1000, total_real = 1000\<rparr>,
          \<lparr>year = 2, deposit = 1000, tg_balance = 200, etf_balance = 1800,
            total_nominal = 2000, total_real = 2000\<rparr>,
          \<lparr>year = 3, deposit = 0, tg_balance = 200, etf_balance = 1800,
            total_nominal = 2000, total_real = 2000\<rparr>]
   \<and> tg_balance \<lparr>year = 2, deposit = 1000, tg_balance = 200, etf_balance = 1800,
            total_nominal = 2000, total_real = 2000\<rparr> \<le> (200 :: real)"
  using combo_run_example
    combo_tg_balance_le_target [OF combo_run_example,
      of "\<lparr>year = 2, deposit = 1000, tg_balance = 200, etf_balance = 1800,
            total_nominal = 2000, total_real = 2000\<rparr>"]
  by simp

end
